theory Spec2Isabelle
  imports Complex_Main "HOL-Library.Word"
begin

unbundle bit_operations_syntax

section \<open>The frame counter, access arbiter and pacing clock of SpoutFrameCount.cpp\<close>

text \<open>
  The class \<open>spoutFrameCount\<close> is embedded as a record of its member variables, and each
  member function as a function from the object and the operating system's state to the
  new object and the new operating system state. The model follows the branch of the
  source that is compiled when \<open>USE_CHRONO\<close> is defined (std::chrono timing).

  Machine types: \<open>long\<close>, \<open>int\<close>, \<open>DWORD\<close> and \<open>HRESULT\<close> are 32-bit words (signed ones are
  read with \<open>sint\<close>); \<open>double\<close> is idealised as \<open>real\<close>; a \<open>HANDLE\<close> is \<open>None\<close> for NULL and
  \<open>Some name\<close> for a handle to the kernel object of that name.
\<close>

subsection \<open>Machine types and Win32 constants\<close>

type_synonym long = "32 word"
type_synonym DWORD = "32 word"
type_synonym HANDLE = "string option"

definition LONG_MAX :: nat where
  "LONG_MAX = 2147483647"

definition WAIT_OBJECT_0 :: DWORD where
  "WAIT_OBJECT_0 = 0x00000000"

definition WAIT_ABANDONED :: DWORD where
  "WAIT_ABANDONED = 0x00000080"

definition WAIT_TIMEOUT :: DWORD where
  "WAIT_TIMEOUT = 0x00000102"

definition WAIT_FAILED :: DWORD where
  "WAIT_FAILED = 0xFFFFFFFF"

definition D3D11_RESOURCE_MISC_SHARED_KEYEDMUTEX :: DWORD where
  "D3D11_RESOURCE_MISC_SHARED_KEYEDMUTEX = 0x100"

subsection \<open>The operating system as seen by the class\<close>

datatype log_level = LogNotice | LogWarning | LogError

datatype log_arg = ArgStr string | ArgInt int | ArgHandle "string option"

text \<open>
  Every call that leaves the process is recorded, in order, in a trace: the log lines
  (format string and arguments), the waits, the releases and the sleeps. A texture is
  named in the trace by its identifier.
\<close>

datatype event =
    SpoutLog log_level string "log_arg list"
  | Printf string
  | EvWaitForSingleObject HANDLE nat
  | EvReleaseSemaphore HANDLE nat
  | EvReleaseMutex HANDLE
  | EvCloseHandle HANDLE
  | EvCreateSemaphoreA string
  | EvCreateMutexA string
  | EvWriteDwordToRegistry DWORD
  | EvGetDesc nat
  | EvQueryInterface nat
  | EvAcquireSync nat nat nat
  | EvReleaseSync nat nat
  | EvComRelease nat
  | EvSleepFor int

text \<open>
  A named semaphore has a count and a number of open handles; a named mutex has a number
  of open handles. The kernel deletes an object when its last handle is closed.
\<close>

record os =
  semaphores :: "string \<Rightarrow> (nat \<times> nat) option"
  mutexes :: "string \<Rightarrow> nat option"
  registry_Framecount :: "DWORD option"
  display_modes :: "DWORD list"
  steady_clock :: "nat \<Rightarrow> int"
  clock_reads :: nat
  trace :: "event list"

definition emit :: "event \<Rightarrow> os \<Rightarrow> os" where
  "emit e w = w\<lparr>trace := trace w @ [e]\<rparr>"

text \<open>
  \<open>std::chrono::steady_clock::now()\<close>: the clock is a sequence of readings in nanoseconds
  (the period of the clock's duration type), one for each call.
\<close>

definition now :: "os \<Rightarrow> int \<times> os" where
  "now w = (steady_clock w (clock_reads w), w\<lparr>clock_reads := Suc (clock_reads w)\<rparr>)"

text \<open>\<open>duration_cast<microseconds>(d).count()\<close>: division by 1000 that truncates towards zero.\<close>

definition duration_cast_microseconds :: "int \<Rightarrow> int" where
  "duration_cast_microseconds d = sgn d * (\<bar>d\<bar> div 1000)"

text \<open>The cast \<open>(long)x\<close> of a double, which truncates towards zero.\<close>

definition long_of_double :: "real \<Rightarrow> int" where
  "long_of_double x = (if 0 \<le> x then \<lfloor>x\<rfloor> else \<lceil>x\<rceil>)"

text \<open>
  \<open>WaitForSingleObject(h, 0)\<close> on a semaphore handle: a positive count is decremented
  and the wait is satisfied, a zero count times out at once, and a handle that names no
  semaphore (NULL included) fails.
\<close>

definition WaitForSingleObject_semaphore :: "HANDLE \<Rightarrow> os \<Rightarrow> DWORD \<times> os" where
  "WaitForSingleObject_semaphore h w =
     (let w' = emit (EvWaitForSingleObject h 0) w in
      case h of
        None \<Rightarrow> (WAIT_FAILED, w')
      | Some nm \<Rightarrow>
          (case semaphores w nm of
             None \<Rightarrow> (WAIT_FAILED, w')
           | Some (c, r) \<Rightarrow>
               if 0 < c then (WAIT_OBJECT_0, w'\<lparr>semaphores := (semaphores w)(nm \<mapsto> (c - 1, r))\<rparr>)
               else (WAIT_TIMEOUT, w')))"

text \<open>
  \<open>ReleaseSemaphore(h, n, &previous)\<close>: fails, leaving the count as it is, when the count
  would exceed the maximum the semaphore was created with (\<open>LONG_MAX\<close>); otherwise it
  returns the count before the release and adds \<open>n\<close>.
\<close>

definition ReleaseSemaphore :: "HANDLE \<Rightarrow> nat \<Rightarrow> os \<Rightarrow> long option \<times> os" where
  "ReleaseSemaphore h n w =
     (let w' = emit (EvReleaseSemaphore h n) w in
      case h of
        None \<Rightarrow> (None, w')
      | Some nm \<Rightarrow>
          (case semaphores w nm of
             None \<Rightarrow> (None, w')
           | Some (c, r) \<Rightarrow>
               if c + n \<le> LONG_MAX
               then (Some (of_nat c), w'\<lparr>semaphores := (semaphores w)(nm \<mapsto> (c + n, r))\<rparr>)
               else (None, w')))"

text \<open>
  \<open>CreateSemaphoreA(NULL, 1, LONG_MAX, name)\<close> followed by \<open>GetLastError()\<close>: an existing
  semaphore of that name is opened (\<open>ERROR_ALREADY_EXISTS\<close>), a name taken by a mutex
  gives NULL and \<open>ERROR_INVALID_HANDLE\<close>, and otherwise the semaphore is created with
  count 1. \<open>CreateMutexA(NULL, false, name)\<close> is alike.
\<close>

datatype last_error = ERROR_SUCCESS | ERROR_INVALID_HANDLE | ERROR_ALREADY_EXISTS

definition CreateSemaphoreA :: "string \<Rightarrow> os \<Rightarrow> (HANDLE \<times> last_error) \<times> os" where
  "CreateSemaphoreA nm w =
     (let w' = emit (EvCreateSemaphoreA nm) w in
      if mutexes w nm \<noteq> None then ((None, ERROR_INVALID_HANDLE), w')
      else
        (case semaphores w nm of
           Some (c, r) \<Rightarrow>
             ((Some nm, ERROR_ALREADY_EXISTS), w'\<lparr>semaphores := (semaphores w)(nm \<mapsto> (c, Suc r))\<rparr>)
         | None \<Rightarrow>
             ((Some nm, ERROR_SUCCESS), w'\<lparr>semaphores := (semaphores w)(nm \<mapsto> (1, 1))\<rparr>)))"

definition CreateMutexA :: "string \<Rightarrow> os \<Rightarrow> (HANDLE \<times> last_error) \<times> os" where
  "CreateMutexA nm w =
     (let w' = emit (EvCreateMutexA nm) w in
      if semaphores w nm \<noteq> None then ((None, ERROR_INVALID_HANDLE), w')
      else
        (case mutexes w nm of
           Some r \<Rightarrow> ((Some nm, ERROR_ALREADY_EXISTS), w'\<lparr>mutexes := (mutexes w)(nm \<mapsto> Suc r)\<rparr>)
         | None \<Rightarrow> ((Some nm, ERROR_SUCCESS), w'\<lparr>mutexes := (mutexes w)(nm \<mapsto> 1)\<rparr>)))"

definition CloseHandle :: "HANDLE \<Rightarrow> os \<Rightarrow> os" where
  "CloseHandle h w =
     (let w' = emit (EvCloseHandle h) w in
      case h of
        None \<Rightarrow> w'
      | Some nm \<Rightarrow>
          (case semaphores w nm of
             Some (c, r) \<Rightarrow>
               w'\<lparr>semaphores := (semaphores w)(nm := (if r \<le> 1 then None else Some (c, r - 1)))\<rparr>
           | None \<Rightarrow>
               (case mutexes w nm of
                  Some r \<Rightarrow> w'\<lparr>mutexes := (mutexes w)(nm := (if r \<le> 1 then None else Some (r - 1)))\<rparr>
                | None \<Rightarrow> w')))"

subsection \<open>The object\<close>

record spoutFrameCount =
  m_hAccessMutex :: HANDLE
  m_hCountSemaphore :: HANDLE
  m_SenderName :: string
  m_CountSemaphoreName :: string
  m_FrameCount :: long
  m_LastFrameCount :: long
  m_FrameTimeTotal :: real
  m_FrameTimeNumber :: real
  m_lastFrame :: real
  m_FrameStart :: real
  m_bIsNewFrame :: bool
  m_SenderFps :: real
  m_bFrameCount :: bool
  m_bDisabled :: bool
  m_millisForFrame :: real
  m_FrameStartPtr :: int
  m_FrameEndPtr :: int
  m_FramePtr :: int

text \<open>
  \<open>GetRefreshRate\<close>: the loop over \<open>EnumDisplaySettings\<close> keeps the frequency of the last
  graphics mode, and 60 when there is none.
\<close>

fun GetRefreshRate_loop :: "real \<Rightarrow> DWORD list \<Rightarrow> real" where
  "GetRefreshRate_loop frequency [] = frequency"
| "GetRefreshRate_loop frequency (dm # rest) = GetRefreshRate_loop (real (unat dm)) rest"

definition GetRefreshRate :: "os \<Rightarrow> real" where
  "GetRefreshRate w = GetRefreshRate_loop 60 (display_modes w)"

text \<open>The constructor; the registry value is read once.\<close>

definition constructor :: "os \<Rightarrow> spoutFrameCount" where
  "constructor w =
     \<lparr> m_hAccessMutex = None,
       m_hCountSemaphore = None,
       m_SenderName = [],
       m_CountSemaphoreName = [],
       m_FrameCount = 0,
       m_LastFrameCount = 0,
       m_FrameTimeTotal = 0,
       m_FrameTimeNumber = 0,
       m_lastFrame = 0,
       m_FrameStart = 0,
       m_bIsNewFrame = False,
       m_SenderFps = GetRefreshRate w,
       m_bFrameCount = (case registry_Framecount w of None \<Rightarrow> False | Some dwFrame \<Rightarrow> dwFrame = 1),
       m_bDisabled = False,
       m_millisForFrame = 0,
       m_FrameStartPtr = 0,
       m_FrameEndPtr = 0,
       m_FramePtr = 0 \<rparr>"

definition IsFrameCountEnabled :: "spoutFrameCount \<Rightarrow> bool" where
  "IsFrameCountEnabled s = (if \<not> m_bFrameCount s \<or> m_bDisabled s then False else True)"

definition CleanupFrameCount :: "spoutFrameCount \<Rightarrow> os \<Rightarrow> spoutFrameCount \<times> os" where
  "CleanupFrameCount s w =
     (if m_hCountSemaphore s = None then (s, w)
      else
        let w1 = emit (SpoutLog LogNotice ''SpoutFrameCount::CleanupFrameCount'' []) w;
            w2 = CloseHandle (m_hCountSemaphore s) w1
        in (s\<lparr> m_hCountSemaphore := None,
               m_SenderName := [],
               m_FrameCount := 0,
               m_LastFrameCount := 0,
               m_SenderFps := GetRefreshRate w2,
               m_FrameTimeTotal := 0,
               m_FrameTimeNumber := 0 \<rparr>, w2))"

definition DisableFrameCount :: "spoutFrameCount \<Rightarrow> os \<Rightarrow> spoutFrameCount \<times> os" where
  "DisableFrameCount s w =
     (case CleanupFrameCount s w of (s1, w1) \<Rightarrow> (s1\<lparr>m_bDisabled := True\<rparr>, w1))"

definition WriteDwordToRegistry :: "DWORD \<Rightarrow> os \<Rightarrow> os" where
  "WriteDwordToRegistry d w = emit (EvWriteDwordToRegistry d) (w\<lparr>registry_Framecount := Some d\<rparr>)"

definition SetFrameCount :: "bool \<Rightarrow> spoutFrameCount \<Rightarrow> os \<Rightarrow> spoutFrameCount \<times> os" where
  "SetFrameCount bEnable s w =
     (if bEnable then
        (if \<not> m_bFrameCount s
         then (s\<lparr>m_bFrameCount := True, m_bDisabled := False\<rparr>, WriteDwordToRegistry 1 w)
         else (s, w))
      else
        (case (if m_bFrameCount s \<and> IsFrameCountEnabled s then CleanupFrameCount s w else (s, w)) of
           (s1, w1) \<Rightarrow> (s1\<lparr>m_bFrameCount := False, m_bDisabled := False\<rparr>, WriteDwordToRegistry 0 w1)))"

text \<open>
  \<open>EnableFrameCount\<close>. The result is \<open>None\<close> when \<open>strcpy_s\<close> or \<open>sprintf_s\<close> is given a
  name that does not fit the 256-character buffer: the C runtime then calls the
  invalid-parameter handler, which ends the process.
\<close>

definition EnableFrameCount :: "string \<Rightarrow> spoutFrameCount \<Rightarrow> os \<Rightarrow> (spoutFrameCount \<times> os) option" where
  "EnableFrameCount SenderName s w =
     (if \<not> m_bFrameCount s then
        Some (s, emit (SpoutLog LogNotice ''SpoutFrameCount::EnableFrameCount : setting not enabled'' []) w)
      else if m_bDisabled s then
        Some (s, emit (SpoutLog LogNotice ''SpoutFrameCount::EnableFrameCount : application disabled'' []) w)
      else if SenderName = [] then
        Some (s, emit (SpoutLog LogWarning ''SpoutFrameCount::EnableFrameCount - no sender name'' []) w)
      else
        let s1 = s\<lparr> m_FrameCount := 0,
                     m_LastFrameCount := 0,
                     m_FrameTimeTotal := 0,
                     m_FrameTimeNumber := 0,
                     m_SenderFps := GetRefreshRate w,
                     m_millisForFrame := 0,
                     m_FrameStartPtr := 0,
                     m_FrameEndPtr := 0,
                     m_FramePtr := 0 \<rparr>
        in
          if m_hCountSemaphore s1 \<noteq> None \<and> SenderName = m_SenderName s1 then
            Some (s1, emit (SpoutLog LogNotice ''SpoutFrameCount::EnableFrameCount already enabled [%s]''
                              [ArgStr SenderName]) w)
          else
            let w1 = emit (SpoutLog LogNotice ''SpoutFrameCount::EnableFrameCount : sender name [%s]''
                             [ArgStr SenderName]) w;
                s2 = (if m_hCountSemaphore s1 \<noteq> None
                      then s1\<lparr>m_hCountSemaphore := None, m_CountSemaphoreName := []\<rparr> else s1);
                w2 = (if m_hCountSemaphore s1 \<noteq> None then CloseHandle (m_hCountSemaphore s1) w1 else w1)
            in
              if 256 \<le> length SenderName then None
              else
                let s3 = s2\<lparr>m_SenderName := SenderName\<rparr> in
                  if 256 \<le> length SenderName + 16 then None
                  else
                    let s4 = s3\<lparr>m_CountSemaphoreName := SenderName @ ''_Count_Semaphore''\<rparr> in
                      (case CreateSemaphoreA (m_CountSemaphoreName s4) w2 of
                         ((hSemaphore, dwError), w3) \<Rightarrow>
                           if dwError = ERROR_INVALID_HANDLE then
                             Some (s4, emit (SpoutLog LogError ''    Invalid semaphore handle'' []) w3)
                           else
                             let w4 = (if dwError = ERROR_ALREADY_EXISTS
                                       then emit (SpoutLog LogNotice ''    Semaphore already exists'' []) w3
                                       else w3)
                             in
                               if hSemaphore = None then
                                 Some (s4, emit (SpoutLog LogError ''    Unknown error'' []) w4)
                               else
                                 Some (s4\<lparr>m_hCountSemaphore := hSemaphore\<rparr>,
                                       emit (SpoutLog LogNotice ''    Semaphore handle [0x%.7X]''
                                               [ArgHandle hSemaphore]) w4)))"

text \<open>
  \<open>UpdateSenderFps\<close>: two readings of the clock for each counted frame, an average over
  more than 16 frames, and a damped estimate.
\<close>

definition UpdateSenderFps :: "long \<Rightarrow> spoutFrameCount \<Rightarrow> os \<Rightarrow> spoutFrameCount \<times> os" where
  "UpdateSenderFps framecount s w =
     (if 0 <s framecount then
        (case now w of (t1, w1) \<Rightarrow>
         case now w1 of (t2, w2) \<Rightarrow>
           let frametime = real_of_int (duration_cast_microseconds (t1 - m_FramePtr s)) / 1000;
               total = m_FrameTimeTotal s + frametime;
               number = m_FrameTimeNumber s + real_of_int (sint framecount);
               s1 = s\<lparr>m_FrameEndPtr := t1, m_FramePtr := t2,
                       m_FrameTimeTotal := total, m_FrameTimeNumber := number\<rparr>
           in
             if 16 < number then
               let frametime2 = (total / number) / 1000;
                   s2 = s1\<lparr>m_FrameTimeTotal := 0, m_FrameTimeNumber := 0\<rparr>
               in
                 if 0.0001 < frametime2
                 then (s2\<lparr>m_SenderFps := 0.85 * m_SenderFps s2 + 0.15 * (1 / frametime2)\<rparr>, w2)
                 else (s2, w2)
             else (s1, w2))
      else (s, w))"

text \<open>\<open>SetNewFrame\<close>, the sender's publish.\<close>

definition SetNewFrame :: "spoutFrameCount \<Rightarrow> os \<Rightarrow> spoutFrameCount \<times> os" where
  "SetNewFrame s w =
     (if \<not> m_bFrameCount s \<or> m_bDisabled s then (s, w)
      else
        (case WaitForSingleObject_semaphore (m_hCountSemaphore s) w of
           (dwWaitResult, w1) \<Rightarrow>
             if dwWaitResult = WAIT_OBJECT_0 then
               (case ReleaseSemaphore (m_hCountSemaphore s) 2 w1 of
                  (None, w2) \<Rightarrow>
                    (s, emit (SpoutLog LogError ''spoutFrameCount::SetNewFrame - ReleaseSemaphore failed'' []) w2)
                | (Some previous, w2) \<Rightarrow>
                    UpdateSenderFps 1 (s\<lparr>m_FrameCount := m_FrameCount s + 1\<rparr>) w2)
             else if dwWaitResult = WAIT_ABANDONED then
               (s, emit (SpoutLog LogError ''SpoutFrameCount::SetNewFrame - WAIT_ABANDONED'' []) w1)
             else if dwWaitResult = WAIT_FAILED then
               (s, emit (SpoutLog LogError ''SpoutFrameCount::SetNewFrame - WAIT_FAILED'' []) w1)
             else (s, w1)))"

text \<open>
  \<open>GetNewFrame\<close>, the receiver's poll. The switch on the wait result is \<open>GetNewFrame_peek\<close>:
  it gives \<open>None\<close> when the function returns from inside the switch (the release failed),
  and otherwise the value of the local variable \<open>framecount\<close> after the switch, which
  starts at 0 and is written only by a release that succeeds.
\<close>

definition GetNewFrame_peek :: "spoutFrameCount \<Rightarrow> os \<Rightarrow> long option \<times> os" where
  "GetNewFrame_peek s w =
     (case WaitForSingleObject_semaphore (m_hCountSemaphore s) w of
        (dwWaitResult, w1) \<Rightarrow>
          if dwWaitResult = WAIT_OBJECT_0 then
            (case ReleaseSemaphore (m_hCountSemaphore s) 1 w1 of
               (None, w2) \<Rightarrow>
                 (None, emit (SpoutLog LogError ''spoutFrameCount::GetNewFrame - ReleaseSemaphore failed'' []) w2)
             | (Some framecount, w2) \<Rightarrow> (Some framecount, w2))
          else if dwWaitResult = WAIT_ABANDONED then
            (Some 0, emit (SpoutLog LogWarning ''SpoutFrameCount::GetNewFrame - WAIT_ABANDONED'' []) w1)
          else if dwWaitResult = WAIT_FAILED then
            (Some 0, emit (SpoutLog LogWarning ''SpoutFrameCount::GetNewFrame - WAIT_FAILED'' []) w1)
          else (Some 0, w1))"

definition GetNewFrame :: "spoutFrameCount \<Rightarrow> os \<Rightarrow> bool \<times> spoutFrameCount \<times> os" where
  "GetNewFrame s w =
     (if \<not> m_bFrameCount s \<or> m_bDisabled s then (True, s, w)
      else if m_hCountSemaphore s = None then
        (True, s, emit (Printf (''No count sempaphore'' @ [CHR 0x0A])) w)
      else
        (case GetNewFrame_peek s w of
           (None, w1) \<Rightarrow> (True, s, w1)
         | (Some framecount, w1) \<Rightarrow>
             let s1 = s\<lparr>m_FrameCount := framecount\<rparr> in
               if framecount = 0 then (True, s1, w1)
               else if framecount = m_LastFrameCount s1 then (False, s1\<lparr>m_bIsNewFrame := False\<rparr>, w1)
               else
                 (case UpdateSenderFps (framecount - m_LastFrameCount s1) s1 w1 of
                    (s2, w2) \<Rightarrow> (True, s2\<lparr>m_LastFrameCount := framecount, m_bIsNewFrame := True\<rparr>, w2))))"

definition IsFrameNew :: "spoutFrameCount \<Rightarrow> bool" where
  "IsFrameNew s = m_bIsNewFrame s"

definition GetSenderFps :: "spoutFrameCount \<Rightarrow> real" where
  "GetSenderFps s = m_SenderFps s"

definition GetSenderFrame :: "spoutFrameCount \<Rightarrow> long" where
  "GetSenderFrame s = m_FrameCount s"

subsection \<open>Pacing\<close>

text \<open>
  \<open>HoldFps\<close>. The sleep is recorded in the trace with its whole number of milliseconds.
\<close>

definition HoldFps :: "32 word \<Rightarrow> spoutFrameCount \<Rightarrow> os \<Rightarrow> spoutFrameCount \<times> os" where
  "HoldFps fps s w =
     (if sint fps \<le> 0 then (s, w)
      else
        let framerate = real_of_int (sint fps) in
          if m_millisForFrame s < 0.01 then
            (case now w of
               (t, w1) \<Rightarrow>
                 (s\<lparr>m_millisForFrame := 1000 / framerate, m_FrameStartPtr := t\<rparr>,
                  emit (SpoutLog LogNotice ''spoutFrameCount::HoldFps(%d)'' [ArgInt (sint fps)]) w1))
          else
            (case now w of
               (t, w1) \<Rightarrow>
                 let s1 = s\<lparr>m_FrameEndPtr := t\<rparr>;
                     elapsedTime =
                       real_of_int (duration_cast_microseconds (m_FrameEndPtr s1 - m_FrameStartPtr s1)) / 1000;
                     w2 = (if elapsedTime < m_millisForFrame s1
                           then emit (EvSleepFor (long_of_double (m_millisForFrame s1 - elapsedTime))) w1
                           else w1)
                 in
                   (case now w2 of (t', w3) \<Rightarrow> (s1\<lparr>m_FrameStartPtr := t'\<rparr>, w3))))"

subsection \<open>Texture access\<close>

text \<open>
  A texture pointer is \<open>None\<close> for NULL. Of the texture the class reads the \<open>MiscFlags\<close> of
  its descriptor and asks for its \<open>IDXGIKeyedMutex\<close> interface, which it may not have.
\<close>

record ID3D11Texture2D =
  tex_id :: nat
  MiscFlags :: DWORD
  IDXGIKeyedMutex :: bool

definition IsKeyedMutex :: "ID3D11Texture2D option \<Rightarrow> os \<Rightarrow> bool \<times> os" where
  "IsKeyedMutex D3D11texture w =
     (case D3D11texture of
        None \<Rightarrow> (False, w)
      | Some t \<Rightarrow>
          let w1 = emit (EvGetDesc (tex_id t)) w in
            if MiscFlags t AND D3D11_RESOURCE_MISC_SHARED_KEYEDMUTEX \<noteq> 0 then (True, w1)
            else (False, w1))"

text \<open>
  What \<open>WaitForSingleObject(m_hAccessMutex, 67)\<close> and \<open>AcquireSync(0, 67)\<close> return depends
  on the other holders of the lock, so the returned value is the first argument of
  \<open>CheckAccess\<close>, \<open>CheckKeyedAccess\<close> and \<open>CheckTextureAccess\<close>.
\<close>

definition CheckAccess :: "DWORD \<Rightarrow> spoutFrameCount \<Rightarrow> os \<Rightarrow> bool \<times> os" where
  "CheckAccess dwWaitResult s w =
     (if m_hAccessMutex s = None then (True, w)
      else
        let w1 = emit (EvWaitForSingleObject (m_hAccessMutex s) 67) w in
          if dwWaitResult = WAIT_OBJECT_0 then (True, w1)
          else if dwWaitResult = WAIT_ABANDONED then
            (False, emit (SpoutLog LogError ''spoutFrameCount::CheckAccess - WAIT_ABANDONED'' []) w1)
          else if dwWaitResult = WAIT_TIMEOUT then (False, w1)
          else if dwWaitResult = WAIT_FAILED then
            (False, emit (SpoutLog LogError ''spoutFrameCount::CheckAccess - WAIT_FAILED'' []) w1)
          else
            (False, emit (SpoutLog LogError ''spoutFrameCount::CheckAccess - unknown error'' []) w1))"

definition AllowAccess :: "spoutFrameCount \<Rightarrow> os \<Rightarrow> os" where
  "AllowAccess s w =
     (if m_hAccessMutex s \<noteq> None then emit (EvReleaseMutex (m_hAccessMutex s)) w else w)"

definition CheckKeyedAccess :: "DWORD \<Rightarrow> ID3D11Texture2D option \<Rightarrow> os \<Rightarrow> bool \<times> os" where
  "CheckKeyedAccess hr pTexture w =
     (case pTexture of
        None \<Rightarrow> (False, w)
      | Some t \<Rightarrow>
          let w1 = emit (EvQueryInterface (tex_id t)) w in
            if IDXGIKeyedMutex t then
              let w2 = emit (EvAcquireSync (tex_id t) 0 67) w1 in
                if hr = WAIT_OBJECT_0 then (True, emit (EvComRelease (tex_id t)) w2)
                else
                  let w3 = (if hr = WAIT_ABANDONED then
                              emit (SpoutLog LogError ''spoutDirectX::CheckKeyedAccess : WAIT_ABANDONED'' []) w2
                            else if hr = WAIT_TIMEOUT then
                              emit (SpoutLog LogError ''spoutDirectX::CheckKeyedAccess : WAIT_TIMEOUT'' []) w2
                            else w2)
                  in (False, emit (EvComRelease (tex_id t)) (emit (EvReleaseSync (tex_id t) 0) w3))
            else (False, w1))"

definition AllowKeyedAccess :: "ID3D11Texture2D option \<Rightarrow> os \<Rightarrow> os" where
  "AllowKeyedAccess pTexture w =
     (case pTexture of
        None \<Rightarrow> w
      | Some t \<Rightarrow>
          let w1 = emit (EvQueryInterface (tex_id t)) w in
            if IDXGIKeyedMutex t
            then emit (EvComRelease (tex_id t)) (emit (EvReleaseSync (tex_id t) 0) w1)
            else w1)"

definition CheckTextureAccess :: "DWORD \<Rightarrow> ID3D11Texture2D option \<Rightarrow> spoutFrameCount \<Rightarrow> os \<Rightarrow> bool \<times> os" where
  "CheckTextureAccess r D3D11texture s w =
     (case IsKeyedMutex D3D11texture w of
        (True, w1) \<Rightarrow> CheckKeyedAccess r D3D11texture w1
      | (False, w1) \<Rightarrow> CheckAccess r s w1)"

definition AllowTextureAccess :: "ID3D11Texture2D option \<Rightarrow> spoutFrameCount \<Rightarrow> os \<Rightarrow> os" where
  "AllowTextureAccess D3D11texture s w =
     (case IsKeyedMutex D3D11texture w of
        (True, w1) \<Rightarrow> AllowKeyedAccess D3D11texture w1
      | (False, w1) \<Rightarrow> AllowAccess s w1)"

text \<open>
  \<open>CreateAccessMutex\<close>; \<open>None\<close> when the name does not fit the 512-character buffer of
  \<open>sprintf_s\<close>.
\<close>

definition CreateAccessMutex :: "string \<Rightarrow> spoutFrameCount \<Rightarrow> os \<Rightarrow> (bool \<times> spoutFrameCount \<times> os) option" where
  "CreateAccessMutex SenderName s w =
     (if 512 \<le> length SenderName + 17 then None
      else
        let szMutexName = SenderName @ ''_SpoutAccessMutex'' in
          (case CreateMutexA szMutexName w of
             ((hMutex, errnum), w1) \<Rightarrow>
               if hMutex = None then
                 Some (False, s, emit (SpoutLog LogError ''spoutFrameCount::CreateAccessMutex - NULL invalid handle'' []) w1)
               else if errnum = ERROR_INVALID_HANDLE then
                 Some (False, s, emit (SpoutLog LogError ''spoutFrameCount::CreateAccessMutex - [%s] invalid handle''
                                         [ArgStr szMutexName]) w1)
               else if errnum = ERROR_ALREADY_EXISTS then
                 Some (True, s\<lparr>m_hAccessMutex := hMutex\<rparr>,
                       emit (SpoutLog LogNotice ''spoutFrameCount::CreateAccessMutex - [%s] already exists''
                               [ArgStr szMutexName]) w1)
               else
                 Some (True, s\<lparr>m_hAccessMutex := hMutex\<rparr>,
                       emit (SpoutLog LogNotice ''spoutFrameCount::CreateAccessMutex - [%s] created - 0x%.7X''
                               [ArgStr szMutexName, ArgHandle hMutex]) w1)))"

definition CloseAccessMutex :: "spoutFrameCount \<Rightarrow> os \<Rightarrow> spoutFrameCount \<times> os" where
  "CloseAccessMutex s w =
     (s\<lparr>m_hAccessMutex := None\<rparr>,
      if m_hAccessMutex s \<noteq> None then CloseHandle (m_hAccessMutex s) w else w)"

subsection \<open>Concrete states for the worked examples\<close>

text \<open>
  A machine with no kernel objects yet, the registry value \<open>Framecount\<close> set to 1, one
  graphics mode of 60 Hz, and a clock whose successive readings are 50 ms apart.
\<close>

definition os0 :: os where
  "os0 = \<lparr> semaphores = (\<lambda>_. None), mutexes = (\<lambda>_. None), registry_Framecount = Some 1,
           display_modes = [60], steady_clock = (\<lambda>n. int n * 50000000), clock_reads = 0, trace = [] \<rparr>"

text \<open>
  The constructed object with the handle that \<open>CreateAccessMutex\<close> gives it for the sender
  \<open>cam\<close>, a texture with the keyed-mutex flag and a texture without it.
\<close>

definition with_mutex :: spoutFrameCount where
  "with_mutex = (constructor os0)\<lparr>m_hAccessMutex := Some ''cam_SpoutAccessMutex''\<rparr>"

definition keyed_texture :: ID3D11Texture2D where
  "keyed_texture = \<lparr> tex_id = 1, MiscFlags = 0x102, IDXGIKeyedMutex = True \<rparr>"

definition plain_texture :: ID3D11Texture2D where
  "plain_texture = \<lparr> tex_id = 2, MiscFlags = 0x2, IDXGIKeyedMutex = False \<rparr>"

text \<open>
  The object constructed on that machine and enabled for the sender \<open>cam\<close>, the same after
  one \<open>SetNewFrame\<close>, and the constructed object after \<open>HoldFps(10)\<close>.
\<close>

definition enabled0 :: "spoutFrameCount \<times> os" where
  "enabled0 = (case EnableFrameCount ''cam'' (constructor os0) os0 of
                 Some p \<Rightarrow> p | None \<Rightarrow> (constructor os0, os0))"

definition published1 :: "spoutFrameCount \<times> os" where
  "published1 = SetNewFrame (fst enabled0) (snd enabled0)"

definition held10 :: "spoutFrameCount \<times> os" where
  "held10 = HoldFps 10 (constructor os0) os0"

subsection \<open>Sequences of calls\<close>

text \<open>
  \<open>SetNewFrame_n n\<close> is \<open>n\<close> calls of \<open>SetNewFrame\<close> in a row. A call is successful when it
  takes the branch that increments the frame count (the wait was satisfied and the release
  succeeded); this is the only branch that changes \<open>m_FrameCount\<close>.
\<close>

fun SetNewFrame_n :: "nat \<Rightarrow> spoutFrameCount \<Rightarrow> os \<Rightarrow> spoutFrameCount \<times> os" where
  "SetNewFrame_n 0 s w = (s, w)"
| "SetNewFrame_n (Suc n) s w = (case SetNewFrame s w of (s1, w1) \<Rightarrow> SetNewFrame_n n s1 w1)"

definition publish_successful :: "spoutFrameCount \<Rightarrow> os \<Rightarrow> bool" where
  "publish_successful s w = (m_FrameCount (fst (SetNewFrame s w)) = m_FrameCount s + 1)"

fun all_successful :: "nat \<Rightarrow> spoutFrameCount \<Rightarrow> os \<Rightarrow> bool" where
  "all_successful 0 s w = True"
| "all_successful (Suc n) s w =
     (publish_successful s w \<and> (case SetNewFrame s w of (s1, w1) \<Rightarrow> all_successful n s1 w1))"

text \<open>
  The same machine after a receiver has been constructed and enabled for \<open>cam\<close> as well,
  and after the sender has then called \<open>SetNewFrame\<close> twice; and the result of a first
  \<open>GetNewFrame\<close> of the object enabled for \<open>cam\<close> before any frame is published.
\<close>

definition receiver0 :: "spoutFrameCount \<times> os" where
  "receiver0 = (case EnableFrameCount ''cam'' (constructor os0) (snd enabled0) of
                  Some p \<Rightarrow> p | None \<Rightarrow> (constructor os0, snd enabled0))"

definition published2 :: "spoutFrameCount \<times> os" where
  "published2 = SetNewFrame_n 2 (fst enabled0) (snd receiver0)"

definition polled1 :: "bool \<times> spoutFrameCount \<times> os" where
  "polled1 = GetNewFrame (fst enabled0) (snd enabled0)"

text \<open>
  The objects that a program can have: the constructed one, and what any public member
  function that changes the object makes of one it can have, whatever state the operating
  system is in at the call (other processes share the kernel objects).
\<close>

inductive reachable :: "spoutFrameCount \<Rightarrow> bool" where
  reach_constructor: "reachable (constructor w)"
| reach_SetFrameCount: "reachable s \<Longrightarrow> reachable (fst (SetFrameCount bEnable s w))"
| reach_EnableFrameCount: "reachable s \<Longrightarrow> EnableFrameCount SenderName s w = Some (s', w') \<Longrightarrow> reachable s'"
| reach_DisableFrameCount: "reachable s \<Longrightarrow> reachable (fst (DisableFrameCount s w))"
| reach_CleanupFrameCount: "reachable s \<Longrightarrow> reachable (fst (CleanupFrameCount s w))"
| reach_SetNewFrame: "reachable s \<Longrightarrow> reachable (fst (SetNewFrame s w))"
| reach_GetNewFrame: "reachable s \<Longrightarrow> reachable (fst (snd (GetNewFrame s w)))"
| reach_HoldFps: "reachable s \<Longrightarrow> reachable (fst (HoldFps fps s w))"
| reach_CreateAccessMutex: "reachable s \<Longrightarrow> CreateAccessMutex SenderName s w = Some (b, s', w') \<Longrightarrow> reachable s'"
| reach_CloseAccessMutex: "reachable s \<Longrightarrow> reachable (fst (CloseAccessMutex s w))"

definition no_handle_inv :: "spoutFrameCount \<Rightarrow> bool" where
  "no_handle_inv s =
     ((m_hCountSemaphore s = None \<longrightarrow> m_FrameCount s = 0 \<and> m_LastFrameCount s = 0) \<and>
      (\<not> m_bFrameCount s \<or> m_bDisabled s \<longrightarrow> m_hCountSemaphore s = None))"

text \<open>
  A sequence of calls to the access functions, each acquire with the value its wait will
  return. \<open>run_calls\<close> pairs every call with the events it adds to the trace; it stops at a
  call that ends the process.
\<close>

datatype access_call =
    Acquire DWORD "ID3D11Texture2D option"
  | Release "ID3D11Texture2D option"
  | CreateMutex string
  | CloseMutex

fun texture_of :: "access_call \<Rightarrow> ID3D11Texture2D option option" where
  "texture_of (Acquire r tex) = Some tex"
| "texture_of (Release tex) = Some tex"
| "texture_of (CreateMutex nm) = None"
| "texture_of CloseMutex = None"

definition new_events :: "os \<Rightarrow> os \<Rightarrow> event list" where
  "new_events w w' = drop (length (trace w)) (trace w')"

fun run_calls :: "access_call list \<Rightarrow> spoutFrameCount \<Rightarrow> os \<Rightarrow> (access_call \<times> event list) list" where
  "run_calls [] s w = []"
| "run_calls (Acquire r tex # cs) s w =
     (case CheckTextureAccess r tex s w of
        (b, w') \<Rightarrow> (Acquire r tex, new_events w w') # run_calls cs s w')"
| "run_calls (Release tex # cs) s w =
     (Release tex, new_events w (AllowTextureAccess tex s w)) # run_calls cs s (AllowTextureAccess tex s w)"
| "run_calls (CreateMutex nm # cs) s w =
     (case CreateAccessMutex nm s w of
        None \<Rightarrow> []
      | Some (b, s', w') \<Rightarrow> (CreateMutex nm, new_events w w') # run_calls cs s' w')"
| "run_calls (CloseMutex # cs) s w =
     (case CloseAccessMutex s w of
        (s', w') \<Rightarrow> (CloseMutex, new_events w w') # run_calls cs s' w')"

text \<open>
  The events of the named-mutex lock, the events of the keyed-mutex lock, and the
  capability flag of a texture's descriptor. \<open>strategy_of_flag tex evs\<close> says that the events
  of a call on \<open>tex\<close> are free of the lock that the flag does not select, and that the
  descriptor of a texture that is not NULL was read first.
\<close>

fun generic_lock_event :: "event \<Rightarrow> bool" where
  "generic_lock_event (EvWaitForSingleObject h t) = True"
| "generic_lock_event (EvReleaseMutex h) = True"
| "generic_lock_event e = False"

fun keyed_lock_event :: "event \<Rightarrow> bool" where
  "keyed_lock_event (EvQueryInterface i) = True"
| "keyed_lock_event (EvAcquireSync i k t) = True"
| "keyed_lock_event (EvReleaseSync i k) = True"
| "keyed_lock_event (EvComRelease i) = True"
| "keyed_lock_event e = False"

definition keyed_capable :: "ID3D11Texture2D option \<Rightarrow> bool" where
  "keyed_capable tex =
     (case tex of None \<Rightarrow> False
      | Some t \<Rightarrow> MiscFlags t AND D3D11_RESOURCE_MISC_SHARED_KEYEDMUTEX \<noteq> 0)"

definition strategy_of_flag :: "ID3D11Texture2D option \<Rightarrow> event list \<Rightarrow> bool" where
  "strategy_of_flag tex evs =
     ((if keyed_capable tex then list_all (\<lambda>e. \<not> generic_lock_event e) evs
       else list_all (\<lambda>e. \<not> keyed_lock_event e) evs) \<and>
      (case tex of None \<Rightarrow> True | Some t \<Rightarrow> take 1 evs = [EvGetDesc (tex_id t)]))"

definition example_calls :: "access_call list" where
  "example_calls =
     [CreateMutex ''cam'',
      Acquire WAIT_OBJECT_0 (Some keyed_texture), Release (Some keyed_texture),
      Acquire WAIT_TIMEOUT (Some plain_texture), Release None]"

section \<open>Properties\<close>

subsection \<open>The registry flag and the application-disabled flag\<close>

text \<open>
  Claim C10. \<open>SetFrameCount(true)\<close> called while the registry flag is already set changes
  nothing, so it leaves the application-disabled flag as it is; called while the registry
  flag is unset it sets the registry flag and clears the application-disabled flag.
  Hence after \<open>DisableFrameCount\<close> on an object whose registry flag is set, the object is
  application-disabled, \<open>SetFrameCount(true)\<close> does not change that, and every
  \<open>EnableFrameCount\<close> is refused: it logs the notice and leaves the object as it is, with
  no semaphore handle.
\<close>

theorem SetFrameCount_true_keeps_disabled:
  "(m_bFrameCount s \<longrightarrow> SetFrameCount True s w = (s, w)) \<and>
   (\<not> m_bFrameCount s \<longrightarrow>
      \<not> m_bDisabled (fst (SetFrameCount True s w)) \<and> m_bFrameCount (fst (SetFrameCount True s w))) \<and>
   (m_bFrameCount s \<longrightarrow>
      (case DisableFrameCount s w of (s1, w1) \<Rightarrow>
         m_bDisabled s1 \<and> m_bFrameCount s1 \<and> m_hCountSemaphore s1 = None \<and>
         SetFrameCount True s1 w1 = (s1, w1) \<and>
         (\<forall>name w2. EnableFrameCount name s1 w2 =
            Some (s1, emit (SpoutLog LogNotice ''SpoutFrameCount::EnableFrameCount : application disabled'' []) w2))))"
  by (auto simp: SetFrameCount_def DisableFrameCount_def CleanupFrameCount_def EnableFrameCount_def Let_def
           split: prod.splits)

theorem SetFrameCount_true_keeps_disabled_witness:
  "m_bFrameCount (constructor os0) \<and>
   SetFrameCount True (constructor os0) os0 = (constructor os0, os0) \<and>
   m_bDisabled (fst (DisableFrameCount (constructor os0) os0)) \<and>
   EnableFrameCount ''cam'' (fst (DisableFrameCount (constructor os0) os0)) os0 =
     Some (fst (DisableFrameCount (constructor os0) os0),
           emit (SpoutLog LogNotice ''SpoutFrameCount::EnableFrameCount : application disabled'' []) os0) \<and>
   \<not> m_bFrameCount ((constructor os0)\<lparr>m_bFrameCount := False, m_bDisabled := True\<rparr>) \<and>
   \<not> m_bDisabled (fst (SetFrameCount True ((constructor os0)\<lparr>m_bFrameCount := False, m_bDisabled := True\<rparr>) os0))"
  using SetFrameCount_true_keeps_disabled [of "constructor os0" os0]
        SetFrameCount_true_keeps_disabled [of "(constructor os0)\<lparr>m_bFrameCount := False, m_bDisabled := True\<rparr>" os0]
  by (auto simp: constructor_def os0_def split: prod.splits)

subsection \<open>The access lock\<close>

lemma CreateAccessMutex_with_mutex:
  "map_option (fst \<circ> snd) (CreateAccessMutex ''cam'' (constructor os0) os0) = Some with_mutex"
  by (simp add: CreateAccessMutex_def CreateMutexA_def with_mutex_def os0_def Let_def emit_def)

text \<open>
  Claim C5, as stated, fails: an abandoned wait result makes the acquire return false.
  Here the object holds its access mutex, the texture pointer is NULL and the wait on the
  named mutex returns \<open>WAIT_ABANDONED\<close>.
\<close>

theorem abandoned_acquire_counterexample:
  "fst (CheckTextureAccess WAIT_ABANDONED None with_mutex os0) = False"
  by (simp add: CheckTextureAccess_def IsKeyedMutex_def CheckAccess_def with_mutex_def
                WAIT_ABANDONED_def WAIT_OBJECT_0_def Let_def)

text \<open>
  Claim C5, amended. Whenever the wait of an acquire returns the abandoned result, the
  acquire logs at error severity and returns false: \<open>CheckAccess\<close> logs after its wait on
  the named mutex, \<open>CheckKeyedAccess\<close> logs after \<open>AcquireSync\<close> and then releases the key
  and the interface, and \<open>CheckTextureAccess\<close> returns false whenever it waits at all on
  one of the two.
\<close>

theorem abandoned_acquire_fails:
  "(m_hAccessMutex s \<noteq> None \<longrightarrow>
      CheckAccess WAIT_ABANDONED s w =
        (False, emit (SpoutLog LogError ''spoutFrameCount::CheckAccess - WAIT_ABANDONED'' [])
                  (emit (EvWaitForSingleObject (m_hAccessMutex s) 67) w))) \<and>
   (IDXGIKeyedMutex t \<longrightarrow>
      CheckKeyedAccess WAIT_ABANDONED (Some t) w =
        (False, emit (EvComRelease (tex_id t)) (emit (EvReleaseSync (tex_id t) 0)
                  (emit (SpoutLog LogError ''spoutDirectX::CheckKeyedAccess : WAIT_ABANDONED'' [])
                     (emit (EvAcquireSync (tex_id t) 0 67) (emit (EvQueryInterface (tex_id t)) w)))))) \<and>
   ((m_hAccessMutex s \<noteq> None \<or> fst (IsKeyedMutex tex w)) \<longrightarrow>
      fst (CheckTextureAccess WAIT_ABANDONED tex s w) = False)"
  by (auto simp: CheckAccess_def CheckKeyedAccess_def CheckTextureAccess_def IsKeyedMutex_def
                 WAIT_ABANDONED_def WAIT_OBJECT_0_def Let_def split: option.splits)

theorem abandoned_acquire_fails_witness:
  "m_hAccessMutex with_mutex \<noteq> None \<and> IDXGIKeyedMutex keyed_texture \<and>
   fst (IsKeyedMutex (Some keyed_texture) os0) \<and>
   fst (CheckAccess WAIT_ABANDONED with_mutex os0) = False \<and>
   fst (CheckKeyedAccess WAIT_ABANDONED (Some keyed_texture) os0) = False \<and>
   fst (CheckTextureAccess WAIT_ABANDONED (Some keyed_texture) with_mutex os0) = False \<and>
   fst (CheckTextureAccess WAIT_ABANDONED None with_mutex os0) = False"
  using abandoned_acquire_fails [of with_mutex os0 keyed_texture "Some keyed_texture"]
        abandoned_acquire_fails [of with_mutex os0 keyed_texture None]
  by (simp add: with_mutex_def keyed_texture_def IsKeyedMutex_def D3D11_RESOURCE_MISC_SHARED_KEYEDMUTEX_def Let_def)

text \<open>
  Claim C6, as stated, fails: with a NULL texture pointer the acquire takes the named
  mutex path, so on an object that holds its access mutex it waits, and it returns false
  when the wait times out.
\<close>

theorem null_resource_counterexample:
  "CheckTextureAccess WAIT_TIMEOUT None with_mutex os0 =
     (False, emit (EvWaitForSingleObject (Some ''cam_SpoutAccessMutex'') 67) os0)"
  by (simp add: CheckTextureAccess_def IsKeyedMutex_def CheckAccess_def with_mutex_def
                WAIT_TIMEOUT_def WAIT_ABANDONED_def WAIT_OBJECT_0_def Let_def)

text \<open>
  Claim C6, amended. With a NULL texture pointer, acquire and release are no-ops (acquire
  returning true, nothing waited for, nothing released) exactly on an object that has no
  access mutex handle. On an object that has one, the acquire with a NULL texture waits on
  the named mutex for 67 ms and returns true only if the wait is satisfied, and the
  release releases the named mutex.
\<close>

theorem null_resource_without_mutex_noop:
  "(m_hAccessMutex s = None \<longrightarrow>
      CheckTextureAccess r None s w = (True, w) \<and> AllowTextureAccess None s w = w) \<and>
   (m_hAccessMutex s \<noteq> None \<longrightarrow>
      trace (snd (CheckTextureAccess r None s w)) ! length (trace w) = EvWaitForSingleObject (m_hAccessMutex s) 67 \<and>
      fst (CheckTextureAccess r None s w) = (r = WAIT_OBJECT_0) \<and>
      AllowTextureAccess None s w = emit (EvReleaseMutex (m_hAccessMutex s)) w)"
  by (auto simp: CheckTextureAccess_def AllowTextureAccess_def IsKeyedMutex_def CheckAccess_def AllowAccess_def
                 emit_def Let_def nth_append)

theorem null_resource_without_mutex_noop_witness:
  "m_hAccessMutex (constructor os0) = None \<and>
   CheckTextureAccess WAIT_TIMEOUT None (constructor os0) os0 = (True, os0) \<and>
   AllowTextureAccess None (constructor os0) os0 = os0 \<and>
   m_hAccessMutex with_mutex \<noteq> None \<and>
   fst (CheckTextureAccess WAIT_TIMEOUT None with_mutex os0) = False"
proof -
  have h1: "m_hAccessMutex (constructor os0) = None"
    by (simp add: constructor_def)
  have h2: "m_hAccessMutex with_mutex \<noteq> None"
    by (simp add: with_mutex_def)
  have ne: "WAIT_TIMEOUT \<noteq> WAIT_OBJECT_0"
    by (simp add: WAIT_TIMEOUT_def WAIT_OBJECT_0_def)
  show ?thesis
    using h1 h2 ne null_resource_without_mutex_noop [of "constructor os0" WAIT_TIMEOUT os0]
      null_resource_without_mutex_noop [of with_mutex WAIT_TIMEOUT os0]
    by simp
qed

subsection \<open>Enabling again\<close>

lemma enabled0_eq:
  "enabled0 =
    ((constructor os0)\<lparr>m_SenderName := ''cam'', m_CountSemaphoreName := ''cam_Count_Semaphore'',
        m_hCountSemaphore := Some ''cam_Count_Semaphore''\<rparr>,
     os0\<lparr>semaphores := (\<lambda>_. None)(''cam_Count_Semaphore'' \<mapsto> (1, 1)),
         trace := [SpoutLog LogNotice ''SpoutFrameCount::EnableFrameCount : sender name [%s]'' [ArgStr ''cam''],
                   EvCreateSemaphoreA ''cam_Count_Semaphore'',
                   SpoutLog LogNotice ''    Semaphore handle [0x%.7X]'' [ArgHandle (Some ''cam_Count_Semaphore'')]]\<rparr>)"
  by (simp add: enabled0_def EnableFrameCount_def constructor_def os0_def CreateSemaphoreA_def emit_def
        GetRefreshRate_def Let_def)

lemma published1_fields:
  "m_bFrameCount (fst published1)" "\<not> m_bDisabled (fst published1)"
  "m_hCountSemaphore (fst published1) = Some ''cam_Count_Semaphore''"
  "m_SenderName (fst published1) = ''cam''" "m_FrameCount (fst published1) = 1"
  by (simp_all add: published1_def enabled0_eq SetNewFrame_def WaitForSingleObject_semaphore_def
        ReleaseSemaphore_def UpdateSenderFps_def now_def emit_def constructor_def os0_def
        WAIT_OBJECT_0_def LONG_MAX_def Let_def word_sless_alt)

text \<open>
  Claim C7, as stated, fails: the sender \<open>cam\<close> has published one frame, so its frame
  number is 1; enabling it again for \<open>cam\<close> sets the frame number back to 0.
\<close>

theorem enable_again_counterexample:
  "m_bFrameCount (fst published1) \<and> \<not> m_bDisabled (fst published1) \<and>
   m_hCountSemaphore (fst published1) = Some ''cam_Count_Semaphore'' \<and>
   m_SenderName (fst published1) = ''cam'' \<and>
   GetSenderFrame (fst published1) = 1 \<and>
   map_option (GetSenderFrame \<circ> fst) (EnableFrameCount ''cam'' (fst published1) (snd published1)) = Some 0"
  by (simp add: published1_def enabled0_eq SetNewFrame_def WaitForSingleObject_semaphore_def
        ReleaseSemaphore_def UpdateSenderFps_def now_def emit_def constructor_def os0_def
        WAIT_OBJECT_0_def LONG_MAX_def GetSenderFrame_def EnableFrameCount_def Let_def word_sless_alt)

text \<open>
  Claim C7, amended. \<open>EnableFrameCount(name)\<close> on an object that is already enabled for the
  identical name keeps the semaphore handle and both names and makes no call to the
  kernel (it only logs a notice), but it is not a no-op: the frame number, the comparator,
  the two timing accumulators, the pacing period and the three time points are set to
  zero and the fps estimate to the refresh rate.
\<close>

theorem enable_again_resets:
  assumes "m_bFrameCount s" and "\<not> m_bDisabled s" and "m_hCountSemaphore s \<noteq> None"
    and "SenderName = m_SenderName s" and "SenderName \<noteq> []"
  shows "EnableFrameCount SenderName s w =
    Some (s\<lparr> m_FrameCount := 0, m_LastFrameCount := 0, m_FrameTimeTotal := 0, m_FrameTimeNumber := 0,
             m_SenderFps := GetRefreshRate w, m_millisForFrame := 0,
             m_FrameStartPtr := 0, m_FrameEndPtr := 0, m_FramePtr := 0 \<rparr>,
          emit (SpoutLog LogNotice ''SpoutFrameCount::EnableFrameCount already enabled [%s]''
                  [ArgStr SenderName]) w)"
  using assms by (simp add: EnableFrameCount_def Let_def)

theorem enable_again_resets_witness:
  "m_bFrameCount (fst published1) \<and> \<not> m_bDisabled (fst published1) \<and>
   m_hCountSemaphore (fst published1) \<noteq> None \<and> ''cam'' = m_SenderName (fst published1) \<and>
   ''cam'' \<noteq> [] \<and> m_FrameCount (fst published1) = 1 \<and>
   map_option (\<lambda>p. (m_FrameCount (fst p), m_hCountSemaphore (fst p), trace (snd p)))
     (EnableFrameCount ''cam'' (fst published1) (snd published1)) =
   Some (0, Some ''cam_Count_Semaphore'',
         trace (snd published1) @
           [SpoutLog LogNotice ''SpoutFrameCount::EnableFrameCount already enabled [%s]'' [ArgStr ''cam'']])"
proof -
  have h: "m_hCountSemaphore (fst published1) \<noteq> None" "''cam'' = m_SenderName (fst published1)" "''cam'' \<noteq> []"
    by (simp_all add: published1_fields)
  show ?thesis
    using enable_again_resets [OF published1_fields(1) published1_fields(2) h, of "snd published1"]
    by (simp add: published1_fields emit_def)
qed

subsection \<open>Pacing\<close>

lemma held10_eq:
  "held10 =
    ((constructor os0)\<lparr>m_millisForFrame := 100\<rparr>,
     os0\<lparr>clock_reads := 1, trace := [SpoutLog LogNotice ''spoutFrameCount::HoldFps(%d)'' [ArgInt 10]]\<rparr>)"
  by (simp add: held10_def HoldFps_def now_def emit_def constructor_def os0_def Let_def)

text \<open>
  Claim C9, as stated, fails: after \<open>HoldFps(10)\<close> has stored a period of 100 ms, a call
  \<open>HoldFps(1000)\<close> made 50 ms later sleeps for 50 ms, although 50 ms is not smaller than
  the period 1000/1000 = 1 ms of the rate it was called with.
\<close>

theorem hold_changed_rate_counterexample:
  "trace (snd (HoldFps 1000 (fst held10) (snd held10))) = trace (snd held10) @ [EvSleepFor 50] \<and>
   \<not> (real_of_int (duration_cast_microseconds (steady_clock os0 1 - m_FrameStartPtr (fst held10))) / 1000
        < 1000 / real_of_int (sint (1000 :: 32 word)))"
  by (simp add: held10_def HoldFps_def now_def emit_def constructor_def os0_def Let_def
        duration_cast_microseconds_def long_of_double_def)

text \<open>
  Claim C9, amended. \<open>HoldFps(fps)\<close> with \<open>fps \<le> 0\<close> changes nothing. A call with a positive
  rate made while the stored period is below 0.01 ms (as it is after construction and
  after \<open>EnableFrameCount\<close>) stores the period 1000/fps, records the clock reading as the
  baseline and does not sleep. Every other call with a positive rate measures the whole
  microseconds since the baseline, compares them, in milliseconds, with the stored period
  (not with 1000/fps of the rate it is called with), sleeps for the remainder truncated to
  whole milliseconds when the elapsed time is smaller, and then always takes a new clock
  reading as the baseline; the stored period stays as it is.
\<close>

theorem hold_uses_stored_period:
  "(sint fps \<le> 0 \<longrightarrow> HoldFps fps s w = (s, w)) \<and>
   (0 < sint fps \<and> m_millisForFrame s < 0.01 \<longrightarrow>
      HoldFps fps s w =
        (s\<lparr>m_millisForFrame := 1000 / real_of_int (sint fps),
            m_FrameStartPtr := steady_clock w (clock_reads w)\<rparr>,
         emit (SpoutLog LogNotice ''spoutFrameCount::HoldFps(%d)'' [ArgInt (sint fps)])
           (w\<lparr>clock_reads := Suc (clock_reads w)\<rparr>))) \<and>
   (0 < sint fps \<and> \<not> m_millisForFrame s < 0.01 \<longrightarrow>
      fst (HoldFps fps s w) =
        s\<lparr>m_FrameEndPtr := steady_clock w (clock_reads w),
           m_FrameStartPtr := steady_clock w (Suc (clock_reads w))\<rparr> \<and>
      clock_reads (snd (HoldFps fps s w)) = Suc (Suc (clock_reads w)) \<and>
      trace (snd (HoldFps fps s w)) =
        trace w @
        (if real_of_int (duration_cast_microseconds (steady_clock w (clock_reads w) - m_FrameStartPtr s)) / 1000
              < m_millisForFrame s
         then [EvSleepFor \<lfloor>m_millisForFrame s
                 - real_of_int (duration_cast_microseconds (steady_clock w (clock_reads w) - m_FrameStartPtr s)) / 1000\<rfloor>]
         else []))"
  by (auto simp: HoldFps_def now_def emit_def Let_def long_of_double_def)


theorem hold_uses_stored_period_witness:
  "sint (0 :: 32 word) \<le> 0 \<and> HoldFps 0 (constructor os0) os0 = (constructor os0, os0) \<and>
   0 < sint (10 :: 32 word) \<and> m_millisForFrame (constructor os0) < 0.01 \<and>
   m_millisForFrame (fst (HoldFps 10 (constructor os0) os0)) = 100 \<and>
   0 < sint (1000 :: 32 word) \<and> \<not> m_millisForFrame (fst held10) < 0.01 \<and>
   m_millisForFrame (fst (HoldFps 1000 (fst held10) (snd held10))) = 100 \<and>
   m_FrameStartPtr (fst (HoldFps 1000 (fst held10) (snd held10))) = 100000000 \<and>
   trace (snd (HoldFps 1000 (fst held10) (snd held10))) = trace (snd held10) @ [EvSleepFor 50]"
proof -
  have a: "sint (0 :: 32 word) \<le> 0" "0 < sint (10 :: 32 word)" "0 < sint (1000 :: 32 word)"
    by simp_all
  have b: "m_millisForFrame (constructor os0) < 0.01" "\<not> m_millisForFrame (fst held10) < 0.01"
    by (simp_all add: held10_eq constructor_def)
  have c: "steady_clock (snd held10) (clock_reads (snd held10)) = 50000000"
    "steady_clock (snd held10) (Suc (clock_reads (snd held10))) = 100000000"
    "m_FrameStartPtr (fst held10) = 0" "m_millisForFrame (fst held10) = 100"
    by (simp_all add: held10_eq os0_def constructor_def)
  show ?thesis
    using a b hold_uses_stored_period [of 0 "constructor os0" os0]
      hold_uses_stored_period [of 10 "constructor os0" os0]
      hold_uses_stored_period [of 1000 "fst held10" "snd held10"]
    by (simp add: c duration_cast_microseconds_def)
qed

subsection \<open>The frame counter\<close>

lemma enabled0_fields:
  "m_bFrameCount (fst enabled0)" "\<not> m_bDisabled (fst enabled0)"
  "m_hCountSemaphore (fst enabled0) = Some ''cam_Count_Semaphore''"
  "m_FrameCount (fst enabled0) = 0" "m_LastFrameCount (fst enabled0) = 0"
  "semaphores (snd enabled0) ''cam_Count_Semaphore'' = Some (1, 1)"
  by (simp_all add: enabled0_eq constructor_def os0_def)

lemma receiver0_fields:
  "m_bFrameCount (fst receiver0)" "\<not> m_bDisabled (fst receiver0)"
  "m_hCountSemaphore (fst receiver0) = Some ''cam_Count_Semaphore''"
  "m_LastFrameCount (fst receiver0) = 0" "m_FrameCount (fst receiver0) = 0"
  "m_bIsNewFrame (fst receiver0) = False"
  "semaphores (snd receiver0) ''cam_Count_Semaphore'' = Some (1, 2)"
  by (simp_all add: receiver0_def enabled0_eq EnableFrameCount_def constructor_def os0_def
        CreateSemaphoreA_def emit_def GetRefreshRate_def Let_def)

lemma UpdateSenderFps_fields [simp]:
  "m_FrameCount (fst (UpdateSenderFps f s w)) = m_FrameCount s"
  "m_LastFrameCount (fst (UpdateSenderFps f s w)) = m_LastFrameCount s"
  "m_bIsNewFrame (fst (UpdateSenderFps f s w)) = m_bIsNewFrame s"
  "m_hCountSemaphore (fst (UpdateSenderFps f s w)) = m_hCountSemaphore s"
  "m_bFrameCount (fst (UpdateSenderFps f s w)) = m_bFrameCount s"
  "m_bDisabled (fst (UpdateSenderFps f s w)) = m_bDisabled s"
  by (simp_all add: UpdateSenderFps_def now_def Let_def split: prod.splits)

lemma UpdateSenderFps_os [simp]:
  "semaphores (snd (UpdateSenderFps f s w)) = semaphores w"
  "trace (snd (UpdateSenderFps f s w)) = trace w"
  by (simp_all add: UpdateSenderFps_def now_def Let_def split: prod.splits)

lemma GetNewFrame_peek_handle:
  "m_hCountSemaphore s' = m_hCountSemaphore s \<Longrightarrow> semaphores w' = semaphores w \<Longrightarrow>
   fst (GetNewFrame_peek s' w') = fst (GetNewFrame_peek s w) \<and>
   semaphores (snd (GetNewFrame_peek s' w')) = semaphores (snd (GetNewFrame_peek s w))"
  by (auto simp: GetNewFrame_peek_def WaitForSingleObject_semaphore_def ReleaseSemaphore_def emit_def Let_def
           split: option.splits prod.splits)

lemma GetNewFrame_peek_restores:
  "fst (GetNewFrame_peek s w) = Some observed \<Longrightarrow> observed \<noteq> 0 \<Longrightarrow>
   semaphores (snd (GetNewFrame_peek s w)) = semaphores w"
  apply (auto simp: GetNewFrame_peek_def WaitForSingleObject_semaphore_def ReleaseSemaphore_def emit_def Let_def
           WAIT_OBJECT_0_def WAIT_FAILED_def WAIT_TIMEOUT_def
           split: option.splits prod.splits if_splits)
  done

lemma GetNewFrame_peek_count:
  "m_hCountSemaphore s = Some nm \<Longrightarrow> semaphores w nm = Some (c, r) \<Longrightarrow> 0 < c \<Longrightarrow> c \<le> LONG_MAX \<Longrightarrow>
   fst (GetNewFrame_peek s w) = Some (of_nat (c - 1)) \<and>
   semaphores (snd (GetNewFrame_peek s w)) = semaphores w"
  by (auto simp: GetNewFrame_peek_def WaitForSingleObject_semaphore_def ReleaseSemaphore_def emit_def Let_def
           WAIT_OBJECT_0_def)

lemma GetNewFrame_after_peek:
  assumes "m_bFrameCount s" and "\<not> m_bDisabled s" and "m_hCountSemaphore s \<noteq> None"
    and "fst (GetNewFrame_peek s w) = Some observed"
  shows "fst (GetNewFrame s w) = (observed \<noteq> m_LastFrameCount s \<or> observed = 0) \<and>
         GetSenderFrame (fst (snd (GetNewFrame s w))) = observed \<and>
         (observed \<noteq> 0 \<longrightarrow>
            IsFrameNew (fst (snd (GetNewFrame s w))) = (observed \<noteq> m_LastFrameCount s) \<and>
            m_LastFrameCount (fst (snd (GetNewFrame s w))) = observed) \<and>
         (observed = 0 \<longrightarrow>
            IsFrameNew (fst (snd (GetNewFrame s w))) = IsFrameNew s \<and>
            m_LastFrameCount (fst (snd (GetNewFrame s w))) = m_LastFrameCount s)"
  using assms
  by (cases "GetNewFrame_peek s w")
     (auto simp: GetNewFrame_def IsFrameNew_def GetSenderFrame_def Let_def case_prod_beta)

lemma GetNewFrame_new:
  assumes "m_bFrameCount s" and "\<not> m_bDisabled s" and "m_hCountSemaphore s \<noteq> None"
    and "fst (GetNewFrame_peek s w) = Some observed"
    and "observed \<noteq> 0" and "observed \<noteq> m_LastFrameCount s"
  shows "fst (GetNewFrame s w)"
    and "m_LastFrameCount (fst (snd (GetNewFrame s w))) = observed"
    and "m_hCountSemaphore (fst (snd (GetNewFrame s w))) = m_hCountSemaphore s"
    and "m_bFrameCount (fst (snd (GetNewFrame s w)))" and "\<not> m_bDisabled (fst (snd (GetNewFrame s w)))"
    and "semaphores (snd (snd (GetNewFrame s w))) = semaphores (snd (GetNewFrame_peek s w))"
  using assms
  by (cases "GetNewFrame_peek s w"; auto simp: GetNewFrame_def Let_def case_prod_beta)+

lemma SetNewFrame_count:
  assumes "m_bFrameCount s" "\<not> m_bDisabled s" "m_hCountSemaphore s = Some nm"
    and "semaphores w nm = Some (Suc c, r)" and "Suc (Suc c) \<le> LONG_MAX"
  shows "m_FrameCount (fst (SetNewFrame s w)) = m_FrameCount s + 1"
    and "semaphores (snd (SetNewFrame s w)) = (semaphores w)(nm \<mapsto> (Suc (Suc c), r))"
    and "m_bFrameCount (fst (SetNewFrame s w))" and "\<not> m_bDisabled (fst (SetNewFrame s w))"
    and "m_hCountSemaphore (fst (SetNewFrame s w)) = Some nm"
  using assms
  by (simp_all add: SetNewFrame_def WaitForSingleObject_semaphore_def ReleaseSemaphore_def emit_def
        WAIT_OBJECT_0_def Let_def)

lemma SetNewFrame_full:
  assumes "m_bFrameCount s" "\<not> m_bDisabled s" "m_hCountSemaphore s = Some nm"
    and "semaphores w nm = Some (Suc c, r)" and "\<not> Suc (Suc c) \<le> LONG_MAX"
  shows "m_FrameCount (fst (SetNewFrame s w)) = m_FrameCount s"
  using assms
  by (simp add: SetNewFrame_def WaitForSingleObject_semaphore_def ReleaseSemaphore_def emit_def
        WAIT_OBJECT_0_def Let_def)

lemma publish_successful_iff:
  assumes "m_bFrameCount s" "\<not> m_bDisabled s" "m_hCountSemaphore s = Some nm"
    and "semaphores w nm = Some (Suc c, r)"
  shows "publish_successful s w \<longleftrightarrow> Suc (Suc c) \<le> LONG_MAX"
proof (cases "Suc (Suc c) \<le> LONG_MAX")
  case True
  with assms show ?thesis
    by (simp add: publish_successful_def SetNewFrame_count(1))
next
  case False
  with assms show ?thesis
    by (simp add: publish_successful_def SetNewFrame_full)
qed

lemma SetNewFrame_n_count:
  assumes "m_bFrameCount s" "\<not> m_bDisabled s" "m_hCountSemaphore s = Some nm"
    and "semaphores w nm = Some (Suc c, r)" and "all_successful n s w"
  shows "m_FrameCount (fst (SetNewFrame_n n s w)) = m_FrameCount s + of_nat n \<and>
         semaphores (snd (SetNewFrame_n n s w)) nm = Some (Suc (c + n), r) \<and>
         (0 < n \<longrightarrow> Suc (c + n) \<le> LONG_MAX)"
  using assms
proof (induction n arbitrary: s w c)
  case 0
  then show ?case by simp
next
  case (Suc n)
  obtain s1 w1 where step: "SetNewFrame s w = (s1, w1)"
    by (cases "SetNewFrame s w")
  from Suc.prems have ok: "publish_successful s w" and rest: "all_successful n s1 w1"
    by (simp_all add: step)
  from ok Suc.prems have room: "Suc (Suc c) \<le> LONG_MAX"
    by (simp add: publish_successful_iff)
  note facts = SetNewFrame_count [OF Suc.prems(1-4) room]
  have s1: "m_bFrameCount s1" "\<not> m_bDisabled s1" "m_hCountSemaphore s1 = Some nm"
    "semaphores w1 nm = Some (Suc (Suc c), r)" "m_FrameCount s1 = m_FrameCount s + 1"
    using facts by (simp_all add: step)
  from Suc.IH [OF s1(1-4) rest] s1(5) room show ?case
    by (cases n) (simp_all add: step)
qed

lemma all_successful_if_room:
  assumes "m_bFrameCount s" "\<not> m_bDisabled s" "m_hCountSemaphore s = Some nm"
    and "semaphores w nm = Some (Suc c, r)" and "Suc (c + n) \<le> LONG_MAX"
  shows "all_successful n s w"
  using assms
proof (induction n arbitrary: s w c)
  case 0
  then show ?case by simp
next
  case (Suc n)
  obtain s1 w1 where step: "SetNewFrame s w = (s1, w1)"
    by (cases "SetNewFrame s w")
  from Suc.prems have room: "Suc (Suc c) \<le> LONG_MAX"
    by simp
  note facts = SetNewFrame_count [OF Suc.prems(1-4) room]
  have s1: "m_bFrameCount s1" "\<not> m_bDisabled s1" "m_hCountSemaphore s1 = Some nm"
    "semaphores w1 nm = Some (Suc (Suc c), r)"
    using facts by (simp_all add: step)
  from Suc.prems have "Suc (Suc c + n) \<le> LONG_MAX"
    by simp
  from Suc.IH [OF s1 this] Suc.prems(1-4) room show ?case
    by (simp add: step publish_successful_iff)
qed

lemma sint_of_nat_long:
  "n \<le> LONG_MAX \<Longrightarrow> sint (of_nat n :: long) = int n"
  by (simp add: signed_of_nat signed_take_bit_int_eq_self LONG_MAX_def)

lemma published2_fields:
  "semaphores (snd published2) ''cam_Count_Semaphore'' = Some (3, 2)"
  "fst (GetNewFrame_peek (fst receiver0) (snd published2)) = Some 2"
proof -
  have one: "semaphores (snd receiver0) ''cam_Count_Semaphore'' = Some (Suc 0, 2)"
    by (simp add: receiver0_fields)
  have succ: "all_successful 2 (fst enabled0) (snd receiver0)"
    by (rule all_successful_if_room [OF enabled0_fields(1-3) one]) (simp add: LONG_MAX_def)
  from SetNewFrame_n_count [OF enabled0_fields(1-3) one succ]
  show c: "semaphores (snd published2) ''cam_Count_Semaphore'' = Some (3, 2)"
    by (simp add: published2_def)
  have "(0::nat) < 3" "(3::nat) \<le> LONG_MAX"
    by (simp_all add: LONG_MAX_def)
  from GetNewFrame_peek_count [OF receiver0_fields(3) c this]
  show "fst (GetNewFrame_peek (fst receiver0) (snd published2)) = Some 2"
    by simp
qed

lemma receiver0_peek:
  "fst (GetNewFrame_peek (fst receiver0) (snd receiver0)) = Some 0"
proof -
  have "(0::nat) < 1" "(1::nat) \<le> LONG_MAX"
    by (simp_all add: LONG_MAX_def)
  from GetNewFrame_peek_count [OF receiver0_fields(3) receiver0_fields(7) this]
  show ?thesis by simp
qed

text \<open>
  Claim C1. A sender is enabled on a channel whose semaphore has its initial count 1,
  its frame number is 0, and a receiver is enabled on the same semaphore. After \<open>N\<close> calls
  of \<open>SetNewFrame\<close> that are all successful, with no \<open>GetNewFrame\<close> in between, the sender's
  frame number is \<open>N\<close>, the count that the receiver's first \<open>GetNewFrame\<close> captures before it
  restores the semaphore is \<open>N\<close>, and the receiver's frame number is then \<open>N\<close>.
\<close>

theorem publishes_then_poll_observes:
  assumes "m_bFrameCount p" and "\<not> m_bDisabled p" and "m_hCountSemaphore p = Some nm"
    and "m_FrameCount p = 0" and "semaphores w nm = Some (1, r)"
    and "m_bFrameCount c" and "\<not> m_bDisabled c" and "m_hCountSemaphore c = Some nm"
    and "all_successful N p w"
  shows "sint (GetSenderFrame (fst (SetNewFrame_n N p w))) = int N \<and>
         map_option sint (fst (GetNewFrame_peek c (snd (SetNewFrame_n N p w)))) = Some (int N) \<and>
         sint (GetSenderFrame (fst (snd (GetNewFrame c (snd (SetNewFrame_n N p w)))))) = int N"
proof -
  from assms(5) have one: "semaphores w nm = Some (Suc 0, r)"
    by simp
  from SetNewFrame_n_count [OF assms(1-3) one assms(9)] assms(4)
  have fc: "m_FrameCount (fst (SetNewFrame_n N p w)) = of_nat N"
    and cnt: "semaphores (snd (SetNewFrame_n N p w)) nm = Some (Suc N, r)"
    and room: "0 < N \<longrightarrow> Suc N \<le> LONG_MAX"
    by simp_all
  have le: "Suc N \<le> LONG_MAX"
    using room by (cases N) (simp_all add: LONG_MAX_def)
  from GetNewFrame_peek_count [OF assms(8) cnt _ le]
  have peek: "fst (GetNewFrame_peek c (snd (SetNewFrame_n N p w))) = Some (of_nat N)"
    by simp
  have sN: "sint (of_nat N :: long) = int N"
    using le by (simp add: sint_of_nat_long)
  from assms(8) have h: "m_hCountSemaphore c \<noteq> None"
    by simp
  from GetNewFrame_after_peek [OF assms(6,7) h peek]
  have "GetSenderFrame (fst (snd (GetNewFrame c (snd (SetNewFrame_n N p w))))) = of_nat N"
    by simp
  with fc peek sN show ?thesis
    by (simp add: GetSenderFrame_def)
qed

theorem publishes_then_poll_observes_witness:
  "m_bFrameCount (fst enabled0) \<and> \<not> m_bDisabled (fst enabled0) \<and>
   m_hCountSemaphore (fst enabled0) = Some ''cam_Count_Semaphore'' \<and>
   m_FrameCount (fst enabled0) = 0 \<and>
   semaphores (snd receiver0) ''cam_Count_Semaphore'' = Some (1, 2) \<and>
   m_bFrameCount (fst receiver0) \<and> \<not> m_bDisabled (fst receiver0) \<and>
   m_hCountSemaphore (fst receiver0) = Some ''cam_Count_Semaphore'' \<and>
   all_successful 2 (fst enabled0) (snd receiver0) \<and>
   sint (GetSenderFrame (fst published2)) = 2 \<and>
   map_option sint (fst (GetNewFrame_peek (fst receiver0) (snd published2))) = Some 2 \<and>
   sint (GetSenderFrame (fst (snd (GetNewFrame (fst receiver0) (snd published2))))) = 2"
proof -
  have one: "semaphores (snd receiver0) ''cam_Count_Semaphore'' = Some (Suc 0, 2)"
    by (simp add: receiver0_fields)
  have succ: "all_successful 2 (fst enabled0) (snd receiver0)"
    by (rule all_successful_if_room [OF enabled0_fields(1-3) one]) (simp add: LONG_MAX_def)
  from publishes_then_poll_observes [OF enabled0_fields(1-4) receiver0_fields(7) receiver0_fields(1-3) succ]
  show ?thesis
    using succ by (simp add: enabled0_fields receiver0_fields published2_def)
qed

text \<open>
  Claim C2, as stated, fails: the first \<open>GetNewFrame\<close> of a receiver on a channel with no
  frame published observes 0, returns true and leaves the flag that \<open>IsFrameNew\<close> returns
  at false, the value the constructor gave it.
\<close>

theorem poll_flag_counterexample:
  "m_bFrameCount (fst enabled0) \<and> \<not> m_bDisabled (fst enabled0) \<and> m_hCountSemaphore (fst enabled0) \<noteq> None \<and>
   fst (GetNewFrame_peek (fst enabled0) (snd enabled0)) = Some 0 \<and>
   IsFrameNew (fst (snd (GetNewFrame (fst enabled0) (snd enabled0))))
     \<noteq> ((0::long) \<noteq> m_LastFrameCount (fst enabled0) \<or> (0::long) = 0)"
  by (simp add: enabled0_eq GetNewFrame_def GetNewFrame_peek_def WaitForSingleObject_semaphore_def
        ReleaseSemaphore_def emit_def constructor_def os0_def WAIT_OBJECT_0_def LONG_MAX_def
        IsFrameNew_def Let_def)

text \<open>
  Claim C2, amended. Every \<open>GetNewFrame\<close> that completes the peek returns
  \<open>(observed \<noteq> lastObserved) \<or> observed = 0\<close> and stores the observed value as the frame
  number. When the observed value is not 0 it sets the flag that \<open>IsFrameNew\<close> returns to
  \<open>observed \<noteq> lastObserved\<close> and sets \<open>lastObserved\<close> to the observed value; when the observed
  value is 0 it leaves the flag and \<open>lastObserved\<close> as they were.
\<close>

theorem poll_result_and_flag:
  assumes "m_bFrameCount s" and "\<not> m_bDisabled s" and "m_hCountSemaphore s \<noteq> None"
    and "fst (GetNewFrame_peek s w) = Some observed"
  shows "fst (GetNewFrame s w) = (observed \<noteq> m_LastFrameCount s \<or> observed = 0) \<and>
         GetSenderFrame (fst (snd (GetNewFrame s w))) = observed \<and>
         (observed \<noteq> 0 \<longrightarrow>
            IsFrameNew (fst (snd (GetNewFrame s w))) = (observed \<noteq> m_LastFrameCount s) \<and>
            m_LastFrameCount (fst (snd (GetNewFrame s w))) = observed) \<and>
         (observed = 0 \<longrightarrow>
            IsFrameNew (fst (snd (GetNewFrame s w))) = IsFrameNew s \<and>
            m_LastFrameCount (fst (snd (GetNewFrame s w))) = m_LastFrameCount s)"
  using assms by (rule GetNewFrame_after_peek)

theorem poll_result_and_flag_witness:
  "m_bFrameCount (fst receiver0) \<and> \<not> m_bDisabled (fst receiver0) \<and>
   m_hCountSemaphore (fst receiver0) \<noteq> None \<and>
   fst (GetNewFrame_peek (fst receiver0) (snd published2)) = Some 2 \<and>
   fst (GetNewFrame (fst receiver0) (snd published2)) \<and>
   IsFrameNew (fst (snd (GetNewFrame (fst receiver0) (snd published2)))) \<and>
   m_LastFrameCount (fst (snd (GetNewFrame (fst receiver0) (snd published2)))) = 2 \<and>
   fst (GetNewFrame_peek (fst receiver0) (snd receiver0)) = Some 0 \<and>
   fst (GetNewFrame (fst receiver0) (snd receiver0)) \<and>
   \<not> IsFrameNew (fst (snd (GetNewFrame (fst receiver0) (snd receiver0))))"
proof -
  have h: "m_hCountSemaphore (fst receiver0) \<noteq> None"
    by (simp add: receiver0_fields)
  show ?thesis
    using poll_result_and_flag [OF receiver0_fields(1,2) h published2_fields(2)]
      poll_result_and_flag [OF receiver0_fields(1,2) h receiver0_peek]
    by (simp add: receiver0_fields published2_fields receiver0_peek IsFrameNew_def)
qed

lemma reachable_no_handle_inv:
  "reachable s \<Longrightarrow> no_handle_inv s"
proof (induction rule: reachable.induct)
  case (reach_constructor w)
  then show ?case by (simp add: no_handle_inv_def constructor_def)
next
  case (reach_SetFrameCount s bEnable w)
  then show ?case
    by (auto simp: no_handle_inv_def SetFrameCount_def CleanupFrameCount_def IsFrameCountEnabled_def Let_def
             split: if_splits)
next
  case (reach_EnableFrameCount s SenderName w s' w')
  then show ?case
    by (auto simp: no_handle_inv_def EnableFrameCount_def CreateSemaphoreA_def Let_def
             split: if_splits option.splits prod.splits)
next
  case (reach_DisableFrameCount s w)
  then show ?case
    by (auto simp: no_handle_inv_def DisableFrameCount_def CleanupFrameCount_def Let_def split: if_splits)
next
  case (reach_CleanupFrameCount s w)
  then show ?case
    by (auto simp: no_handle_inv_def CleanupFrameCount_def Let_def split: if_splits)
next
  case (reach_SetNewFrame s w)
  then show ?case
    by (auto simp: no_handle_inv_def SetNewFrame_def WaitForSingleObject_semaphore_def WAIT_OBJECT_0_def
          WAIT_FAILED_def Let_def case_prod_beta split: if_splits option.splits)
next
  case (reach_GetNewFrame s w)
  then show ?case
    by (auto simp: no_handle_inv_def GetNewFrame_def Let_def case_prod_beta split: if_splits option.splits)
next
  case (reach_HoldFps s fps w)
  then show ?case
    by (auto simp: no_handle_inv_def HoldFps_def now_def Let_def split: if_splits)
next
  case (reach_CreateAccessMutex s SenderName w b s' w')
  then show ?case
    by (auto simp: no_handle_inv_def CreateAccessMutex_def Let_def split: if_splits prod.splits)
next
  case (reach_CloseAccessMutex s w)
  then show ?case
    by (auto simp: no_handle_inv_def CloseAccessMutex_def)
qed

lemma reachable_enabled0: "reachable (fst enabled0)"
proof -
  have "EnableFrameCount ''cam'' (constructor os0) os0 = Some enabled0"
    by (simp add: enabled0_eq EnableFrameCount_def constructor_def os0_def CreateSemaphoreA_def emit_def
        GetRefreshRate_def Let_def)
  then have "EnableFrameCount ''cam'' (constructor os0) os0 = Some (fst enabled0, snd enabled0)"
    by simp
  from reach_EnableFrameCount [OF reach_constructor this] show ?thesis .
qed

text \<open>
  Claim C3. For every object that a program can have: when frame counting is off in the
  registry, or disabled by the application, or there is no semaphore handle,
  \<open>GetNewFrame\<close> returns true and leaves the object as it is, with frame number and
  comparator 0. When the semaphore has its initial count 1, as it has while no
  \<open>SetNewFrame\<close> has been called on the channel, \<open>GetNewFrame\<close> returns true, stores 0 as
  the frame number, leaves the comparator as it is and the count at 1, so that the next
  \<open>GetNewFrame\<close> does the same.
\<close>

theorem poll_fail_open:
  assumes "reachable s"
  shows "(\<not> m_bFrameCount s \<or> m_bDisabled s \<or> m_hCountSemaphore s = None \<longrightarrow>
            fst (GetNewFrame s w) \<and> fst (snd (GetNewFrame s w)) = s \<and>
            GetSenderFrame s = 0 \<and> m_LastFrameCount s = 0) \<and>
         (m_hCountSemaphore s = Some nm \<and> semaphores w nm = Some (1, r) \<longrightarrow>
            fst (GetNewFrame s w) \<and>
            GetSenderFrame (fst (snd (GetNewFrame s w))) = 0 \<and>
            m_LastFrameCount (fst (snd (GetNewFrame s w))) = m_LastFrameCount s \<and>
            semaphores (snd (snd (GetNewFrame s w))) nm = Some (1, r))"
proof -
  from assms have inv: "no_handle_inv s"
    by (rule reachable_no_handle_inv)
  have off: "fst (GetNewFrame s w) \<and> fst (snd (GetNewFrame s w)) = s \<and>
             GetSenderFrame s = 0 \<and> m_LastFrameCount s = 0"
    if "\<not> m_bFrameCount s \<or> m_bDisabled s \<or> m_hCountSemaphore s = None"
    using that inv by (auto simp: GetNewFrame_def no_handle_inv_def GetSenderFrame_def)
  have fresh: "fst (GetNewFrame s w) \<and>
            GetSenderFrame (fst (snd (GetNewFrame s w))) = 0 \<and>
            m_LastFrameCount (fst (snd (GetNewFrame s w))) = m_LastFrameCount s \<and>
            semaphores (snd (snd (GetNewFrame s w))) nm = Some (1, r)"
    if h: "m_hCountSemaphore s = Some nm" and c: "semaphores w nm = Some (1, r)"
  proof -
    from inv h have en: "m_bFrameCount s" "\<not> m_bDisabled s"
      by (auto simp: no_handle_inv_def)
    have "(0::nat) < 1" "(1::nat) \<le> LONG_MAX"
      by (simp_all add: LONG_MAX_def)
    from GetNewFrame_peek_count [OF h c this]
    have peek: "fst (GetNewFrame_peek s w) = Some 0"
      and sem: "semaphores (snd (GetNewFrame_peek s w)) = semaphores w"
      by simp_all
    from en h peek sem c show ?thesis
      by (cases "GetNewFrame_peek s w") (simp add: GetNewFrame_def GetSenderFrame_def)
  qed
  from off fresh show ?thesis
    by blast
qed

theorem poll_fail_open_witness:
  "reachable (fst enabled0) \<and>
   m_hCountSemaphore (fst enabled0) = Some ''cam_Count_Semaphore'' \<and>
   semaphores (snd enabled0) ''cam_Count_Semaphore'' = Some (1, 1) \<and>
   fst (GetNewFrame (fst enabled0) (snd enabled0)) \<and>
   GetSenderFrame (fst (snd (GetNewFrame (fst enabled0) (snd enabled0)))) = 0 \<and>
   reachable (fst (DisableFrameCount (fst enabled0) (snd enabled0))) \<and>
   m_bDisabled (fst (DisableFrameCount (fst enabled0) (snd enabled0))) \<and>
   fst (GetNewFrame (fst (DisableFrameCount (fst enabled0) (snd enabled0))) os0) \<and>
   GetSenderFrame (fst (DisableFrameCount (fst enabled0) (snd enabled0))) = 0 \<and>
   reachable (constructor os0) \<and> m_hCountSemaphore (constructor os0) = None \<and>
   fst (GetNewFrame (constructor os0) os0)"
proof -
  have d: "reachable (fst (DisableFrameCount (fst enabled0) (snd enabled0)))"
    by (rule reach_DisableFrameCount [OF reachable_enabled0])
  have dis: "m_bDisabled (fst (DisableFrameCount (fst enabled0) (snd enabled0)))"
    by (simp add: DisableFrameCount_def case_prod_beta)
  have c: "m_hCountSemaphore (constructor os0) = None"
    by (simp add: constructor_def)
  show ?thesis
    using poll_fail_open [OF reachable_enabled0, of "snd enabled0" "''cam_Count_Semaphore''" 1]
      poll_fail_open [OF d, of os0 "''cam_Count_Semaphore''" 1]
      poll_fail_open [OF reach_constructor, of os0 os0 "''cam_Count_Semaphore''" 1]
      reachable_enabled0 d dis c reach_constructor [of os0]
    by (simp add: enabled0_fields)
qed

text \<open>
  Claim C4, as stated, fails: on a channel with no frame published, the first
  \<open>GetNewFrame\<close> returns true and so does the second.
\<close>

theorem two_polls_counterexample:
  "fst polled1 \<and> fst (GetNewFrame (fst (snd polled1)) (snd (snd polled1)))"
  by (simp add: polled1_def enabled0_eq GetNewFrame_def GetNewFrame_peek_def WaitForSingleObject_semaphore_def
        ReleaseSemaphore_def emit_def constructor_def os0_def WAIT_OBJECT_0_def LONG_MAX_def Let_def)

text \<open>
  Claim C4, amended. When frame counting is enabled, the object has a semaphore handle
  and the first \<open>GetNewFrame\<close> observes a count that is neither 0 nor the last observed
  one, then two \<open>GetNewFrame\<close> calls in a row, with nothing done to the semaphore in
  between, return true and then false.
\<close>

theorem two_polls_after_change:
  assumes "m_bFrameCount s" and "\<not> m_bDisabled s" and "m_hCountSemaphore s \<noteq> None"
    and "fst (GetNewFrame_peek s w) = Some observed"
    and "observed \<noteq> 0" and "observed \<noteq> m_LastFrameCount s"
  shows "fst (GetNewFrame s w) \<and>
         \<not> fst (GetNewFrame (fst (snd (GetNewFrame s w))) (snd (snd (GetNewFrame s w))))"
proof -
  let ?s1 = "fst (snd (GetNewFrame s w))" and ?w1 = "snd (snd (GetNewFrame s w))"
  note first = GetNewFrame_new [OF assms]
  have "semaphores ?w1 = semaphores w"
    using first(6) GetNewFrame_peek_restores [OF assms(4,5)] by simp
  with first(3) GetNewFrame_peek_handle [of ?s1 s ?w1 w] assms(4)
  have peek2: "fst (GetNewFrame_peek ?s1 ?w1) = Some observed"
    by simp
  from first(3) assms(3) have h: "m_hCountSemaphore ?s1 \<noteq> None"
    by simp
  from first(4,5) h peek2 first(2) assms(5) have "\<not> fst (GetNewFrame ?s1 ?w1)"
    by (cases "GetNewFrame_peek ?s1 ?w1") (simp add: GetNewFrame_def Let_def)
  with first(1) show ?thesis
    by simp
qed

theorem two_polls_after_change_witness:
  "m_bFrameCount (fst receiver0) \<and> \<not> m_bDisabled (fst receiver0) \<and>
   m_hCountSemaphore (fst receiver0) \<noteq> None \<and>
   fst (GetNewFrame_peek (fst receiver0) (snd published2)) = Some 2 \<and>
   (2 :: long) \<noteq> 0 \<and> 2 \<noteq> m_LastFrameCount (fst receiver0) \<and>
   fst (GetNewFrame (fst receiver0) (snd published2)) \<and>
   \<not> fst (GetNewFrame (fst (snd (GetNewFrame (fst receiver0) (snd published2))))
                      (snd (snd (GetNewFrame (fst receiver0) (snd published2)))))"
proof -
  have h: "m_hCountSemaphore (fst receiver0) \<noteq> None" "(2 :: long) \<noteq> 0"
    "2 \<noteq> m_LastFrameCount (fst receiver0)"
    by (simp_all add: receiver0_fields)
  show ?thesis
    using two_polls_after_change [OF receiver0_fields(1,2) h(1) published2_fields(2) h(2,3)]
    by (simp add: receiver0_fields published2_fields)
qed

subsection \<open>The choice between the two locks\<close>

lemma CheckTextureAccess_strategy:
  "strategy_of_flag tex (new_events w (snd (CheckTextureAccess r tex s w)))"
  by (auto simp: strategy_of_flag_def keyed_capable_def new_events_def CheckTextureAccess_def IsKeyedMutex_def
        CheckKeyedAccess_def CheckAccess_def emit_def Let_def split: option.splits)

lemma AllowTextureAccess_strategy:
  "strategy_of_flag tex (new_events w (AllowTextureAccess tex s w))"
  by (auto simp: strategy_of_flag_def keyed_capable_def new_events_def AllowTextureAccess_def IsKeyedMutex_def
        AllowKeyedAccess_def AllowAccess_def emit_def Let_def split: option.splits)

lemma run_calls_strategy:
  "(c, evs) \<in> set (run_calls cs s w) \<Longrightarrow> texture_of c = Some tex \<Longrightarrow> strategy_of_flag tex evs"
proof (induction cs s w rule: run_calls.induct)
  case (1 s w)
  then show ?case by simp
next
  case (2 r tex' cs s w)
  then show ?case
    using CheckTextureAccess_strategy [of tex' w r s]
    by (cases "CheckTextureAccess r tex' s w") auto
next
  case (3 tex' cs s w)
  then show ?case
    using AllowTextureAccess_strategy [of tex' w s]
    by auto
next
  case (4 nm cs s w)
  then show ?case
    by (cases "CreateAccessMutex nm s w") auto
next
  case (5 cs s w)
  then show ?case
    by (cases "CloseAccessMutex s w") auto
qed

lemma example_calls_run:
  "run_calls example_calls (constructor os0) os0 =
    [(CreateMutex ''cam'',
      [EvCreateMutexA ''cam_SpoutAccessMutex'',
       SpoutLog LogNotice ''spoutFrameCount::CreateAccessMutex - [%s] created - 0x%.7X''
         [ArgStr ''cam_SpoutAccessMutex'', ArgHandle (Some ''cam_SpoutAccessMutex'')]]),
     (Acquire WAIT_OBJECT_0 (Some keyed_texture),
      [EvGetDesc 1, EvQueryInterface 1, EvAcquireSync 1 0 67, EvComRelease 1]),
     (Release (Some keyed_texture),
      [EvGetDesc 1, EvQueryInterface 1, EvReleaseSync 1 0, EvComRelease 1]),
     (Acquire WAIT_TIMEOUT (Some plain_texture),
      [EvGetDesc 2, EvWaitForSingleObject (Some ''cam_SpoutAccessMutex'') 67]),
     (Release None, [EvReleaseMutex (Some ''cam_SpoutAccessMutex'')])]"
  by (simp add: example_calls_def constructor_def os0_def keyed_texture_def plain_texture_def
        CreateAccessMutex_def CreateMutexA_def CheckTextureAccess_def AllowTextureAccess_def
        IsKeyedMutex_def CheckKeyedAccess_def AllowKeyedAccess_def CheckAccess_def AllowAccess_def
        new_events_def emit_def Let_def D3D11_RESOURCE_MISC_SHARED_KEYEDMUTEX_def
        WAIT_OBJECT_0_def WAIT_TIMEOUT_def WAIT_ABANDONED_def)

text \<open>
  Claim C8. In every sequence of calls, an acquire or release on a texture whose
  descriptor has the keyed-mutex flag makes no wait on and no release of the named mutex,
  and one on a texture without the flag (NULL included) makes no call of the keyed path.
  Every call on a texture that is not NULL starts by reading the descriptor. Hence two
  calls on the same texture, an acquire and its release among them, never engage both
  locks.
\<close>

theorem lock_strategy_follows_flag:
  "\<forall>(c, evs) \<in> set (run_calls cs s w). \<forall>tex. texture_of c = Some tex \<longrightarrow>
     (keyed_capable tex \<longrightarrow> \<not> (\<exists>e \<in> set evs. generic_lock_event e)) \<and>
     (\<not> keyed_capable tex \<longrightarrow> \<not> (\<exists>e \<in> set evs. keyed_lock_event e)) \<and>
     (\<forall>t. tex = Some t \<longrightarrow> take 1 evs = [EvGetDesc (tex_id t)]) \<and>
     (\<forall>(c', evs') \<in> set (run_calls cs s w). texture_of c' = Some tex \<longrightarrow>
        \<not> ((\<exists>e \<in> set (evs @ evs'). generic_lock_event e) \<and> (\<exists>e \<in> set (evs @ evs'). keyed_lock_event e)))"
proof (clarify)
  fix c evs tex
  assume a: "(c, evs) \<in> set (run_calls cs s w)" and t: "texture_of c = Some tex"
  from run_calls_strategy [OF a t] have one: "strategy_of_flag tex evs" .
  have other: "strategy_of_flag tex evs'"
    if "(c', evs') \<in> set (run_calls cs s w)" "texture_of c' = Some tex" for c' evs'
    using that by (rule run_calls_strategy)
  show "(keyed_capable tex \<longrightarrow> \<not> (\<exists>e \<in> set evs. generic_lock_event e)) \<and>
     (\<not> keyed_capable tex \<longrightarrow> \<not> (\<exists>e \<in> set evs. keyed_lock_event e)) \<and>
     (\<forall>t. tex = Some t \<longrightarrow> take 1 evs = [EvGetDesc (tex_id t)]) \<and>
     (\<forall>(c', evs') \<in> set (run_calls cs s w). texture_of c' = Some tex \<longrightarrow>
        \<not> ((\<exists>e \<in> set (evs @ evs'). generic_lock_event e) \<and> (\<exists>e \<in> set (evs @ evs'). keyed_lock_event e)))"
    using one other
    by (cases "keyed_capable tex") (auto simp: strategy_of_flag_def list_all_iff split: option.splits)
qed

theorem lock_strategy_follows_flag_witness:
  "(Acquire WAIT_OBJECT_0 (Some keyed_texture),
      [EvGetDesc 1, EvQueryInterface 1, EvAcquireSync 1 0 67, EvComRelease 1])
     \<in> set (run_calls example_calls (constructor os0) os0) \<and>
   texture_of (Acquire WAIT_OBJECT_0 (Some keyed_texture)) = Some (Some keyed_texture) \<and>
   keyed_capable (Some keyed_texture) \<and>
   \<not> (\<exists>e \<in> set [EvGetDesc 1, EvQueryInterface 1, EvAcquireSync 1 0 67, EvComRelease 1]. generic_lock_event e) \<and>
   (Acquire WAIT_TIMEOUT (Some plain_texture),
      [EvGetDesc 2, EvWaitForSingleObject (Some ''cam_SpoutAccessMutex'') 67])
     \<in> set (run_calls example_calls (constructor os0) os0) \<and>
   texture_of (Acquire WAIT_TIMEOUT (Some plain_texture)) = Some (Some plain_texture) \<and>
   \<not> keyed_capable (Some plain_texture) \<and>
   \<not> (\<exists>e \<in> set [EvGetDesc 2, EvWaitForSingleObject (Some ''cam_SpoutAccessMutex'') 67]. keyed_lock_event e)"
proof -
  have k: "keyed_capable (Some keyed_texture)" "\<not> keyed_capable (Some plain_texture)"
    by (simp_all add: keyed_capable_def keyed_texture_def plain_texture_def
          D3D11_RESOURCE_MISC_SHARED_KEYEDMUTEX_def)
  show ?thesis
    using k lock_strategy_follows_flag [of example_calls "constructor os0" os0]
    by (simp add: example_calls_run)
qed

end
